theory Spec2Isabelle
  imports Main "HOL-Library.Word"
begin

section \<open>The data-access layer of the bot: \<open>sql.py\<close>, class \<open>Database\<close>\<close>

text \<open>
  The class \<open>Database\<close> owns an asyncpg connection pool and sends one SQL statement per
  call, each inside its own transaction.  The model below follows one caller through its
  calls, one after the other:
  \<^item> the Python object and the datastore behind it form one record, \<open>database\<close>, that
    every method takes and returns;
  \<^item> a method returns the state it leaves together with an \<open>outcome\<close>: its return value,
    the exception it raises, or the fact that it never returns;
  \<^item> a table is the list of its rows, a row a record with the columns that the
    \<open>CREATE TABLE\<close> statement of the source lists;
  \<^item> a SQL statement of the source is the function on the tables that the statement
    denotes.

  \<^item> an argument of a method is the Python value, an \<open>int\<close> without bounds or a \<open>str\<close>;
    a column holds what its type can hold, a machine word for \<open>INT\<close>, \<open>SERIAL\<close> and
    \<open>BIGINT\<close>, a binary32 number for \<open>REAL\<close>.  The driver encodes every argument for
    the type of its column and refuses the ones that do not fit.

  What is taken for granted: the server is reachable and the six tables have been
  created with the \<open>create_table_*\<close> methods.  A column that the code always writes with
  a value of a non-optional Python type has no \<open>NULL\<close> in the model.
\<close>

subsection \<open>Outcomes\<close>

text \<open>
  The exceptions of Python and of asyncpg that the methods can end in.  \<open>DataError\<close> is
  \<open>asyncpg.DataError\<close> with its subclasses: an argument that the driver cannot encode for
  the type of its parameter, and a value that the server finds out of range while it runs
  the statement (\<open>integer out of range\<close>, a \<open>NUL\<close> character in a text, a sequence
  that has reached its last value).
\<close>

datatype error =
    IndexError | ValueError | TypeError | AttributeError | OverflowError
  | InterfaceError | TimeoutError | DataError
  | UniqueViolationError | NotNullViolationError

datatype 'a outcome = Returns 'a | Raises error | Hangs

text \<open>one step after the other: what follows a step runs on its value, if it has one\<close>

definition after :: "'a outcome \<Rightarrow> ('a \<Rightarrow> 'b outcome) \<Rightarrow> 'b outcome" where
  "after a f = (case a of Returns x \<Rightarrow> f x | Raises e \<Rightarrow> Raises e | Hangs \<Rightarrow> Hangs)"

subsection \<open>Rows and tables\<close>

text \<open>
  \<open>INT\<close> and \<open>SERIAL\<close> columns hold 32-bit integers, \<open>BIGINT\<close> columns 64-bit integers,
  both signed: \<open>sint\<close> is the number that Python reads out of the column.
\<close>

type_synonym int4 = "32 word"
type_synonym int8 = "64 word"

definition in_int4 :: "int \<Rightarrow> bool" where
  "in_int4 n = (- 2147483648 \<le> n \<and> n \<le> 2147483647)"

definition in_int8 :: "int \<Rightarrow> bool" where
  "in_int8 n = (- 9223372036854775808 \<le> n \<and> n \<le> 9223372036854775807)"

text \<open>
  A binary floating-point number, be it a Python \<open>float\<close> (binary64) or the content of a
  \<open>REAL\<close> column (binary32): \<open>Finite m e\<close> is the number \<open>m * 2 ^ e\<close>, written with an
  odd \<open>m\<close>, and zero is \<open>Finite 0 0\<close> (the sign of zero is not kept).
\<close>

datatype pyfloat = Finite int int | PosInf | NegInf | NaN

record datetime =
  year :: nat
  month :: nat
  day :: nat
  hour :: nat
  minute :: nat
  second :: nat
  microsecond :: nat

text \<open>\<open>users (id SERIAL PRIMARY KEY, user_id BIGINT CONSTRAINT uk_users_user_id UNIQUE,
  username TEXT, full_name TEXT, b24_id INT, im_link_b24 TEXT, lead_id INT)\<close>\<close>

record users_row =
  u_id :: int4
  u_user_id :: int8
  u_username :: "string option"
  u_full_name :: string
  u_b24_id :: "int4 option"
  u_im_link_b24 :: "string option"
  u_lead_id :: "int4 option"

text \<open>\<open>deals (id SERIAL PRIMARY KEY, user_id BIGINT, deal_id INT, product_id INT,
  opportunity REAL, paid BOOLEAN DEFAULT FALSE, create_time TIMESTAMP)\<close>\<close>

record deals_row =
  d_id :: int4
  d_user_id :: int8
  d_deal_id :: int4
  d_product_id :: int4
  d_opportunity :: pyfloat
  d_paid :: bool
  d_create_time :: datetime

text \<open>\<open>buttons_stat (id SERIAL PRIMARY KEY, user_id BIGINT, button_name TEXT, count INT,
  CONSTRAINT unique_user_button UNIQUE (user_id, button_name))\<close>\<close>

record buttons_stat_row =
  bs_id :: int4
  bs_user_id :: int8
  bs_button_name :: string
  bs_count :: int4

text \<open>\<open>products (id INT PRIMARY KEY, name TEXT, active_from TIMESTAMP, active_to TIMESTAMP,
  price REAL, currency_id TEXT, description TEXT)\<close>\<close>

record products_row =
  pr_id :: int4
  pr_name :: "string option"
  pr_active_from :: datetime
  pr_active_to :: datetime
  pr_price :: pyfloat
  pr_currency_id :: "string option"
  pr_description :: "string option"

text \<open>\<open>payments (id SERIAL PRIMARY KEY, user_id BIGINT, currency TEXT, total_amount INT,
  product_id INT, deal_id INT, telegram_payment_charge_id TEXT,
  provider_payment_charge_id TEXT)\<close>\<close>

record payments_row =
  pay_id :: int4
  pay_user_id :: int8
  pay_currency :: string
  pay_total_amount :: int4
  pay_product_id :: int4
  pay_deal_id :: int4
  pay_telegram_payment_charge_id :: string
  pay_provider_payment_charge_id :: string

text \<open>
  The datastore: the tables, and for every \<open>SERIAL\<close> column the last value that its
  sequence has handed out (0 before the first).  A sequence is not part of any
  transaction: a value taken by a statement that fails afterwards is not given back.
\<close>

record store =
  users :: "users_row list"
  users_id_seq :: int4
  deals :: "deals_row list"
  deals_id_seq :: int4
  buttons_stat :: "buttons_stat_row list"
  buttons_stat_id_seq :: int4
  products :: "products_row list"
  payments :: "payments_row list"
  payments_id_seq :: int4

subsection \<open>The statements of SQL that the source uses\<close>

text \<open>\<open>SELECT * FROM t WHERE cond\<close>\<close>

definition sql_select :: "('r \<Rightarrow> bool) \<Rightarrow> 'r list \<Rightarrow> 'r list" where
  "sql_select cond t = filter cond t"

text \<open>\<open>UPDATE t SET assignment WHERE cond\<close>\<close>

definition sql_update :: "('r \<Rightarrow> 'r) \<Rightarrow> ('r \<Rightarrow> bool) \<Rightarrow> 'r list \<Rightarrow> 'r list" where
  "sql_update assignment cond t = map (\<lambda>r. if cond r then assignment r else r) t"

text \<open>\<open>INSERT INTO t VALUES row\<close>, once the constraints of \<open>t\<close> have been checked\<close>

definition sql_insert :: "'r \<Rightarrow> 'r list \<Rightarrow> 'r list" where
  "sql_insert r t = t @ [r]"

text \<open>
  a uniqueness constraint on the columns \<open>key\<close>, the primary key among them: does the
  new row collide?
\<close>

definition conflicts :: "('r \<Rightarrow> 'k) \<Rightarrow> 'r \<Rightarrow> 'r list \<Rightarrow> bool" where
  "conflicts key r t = (\<exists>r' \<in> set t. key r' = key r)"

text \<open>
  \<open>nextval\<close> of the sequence behind a \<open>SERIAL\<close> column, an \<open>integer\<close> sequence that counts
  up by one and does not cycle: after 2147483647 it raises, and stays where it is.
\<close>

definition nextval :: "int4 \<Rightarrow> int4 outcome" where
  "nextval last_value =
     (if sint last_value < 2147483647 then Returns (last_value + 1) else Raises DataError)"

text \<open>
  Every value of a \<open>SERIAL\<close> column \<open>key\<close> has come out of its sequence: none is beyond
  the last value handed out, so the next one is not taken.
\<close>

definition ids_issued :: "('r \<Rightarrow> int4) \<Rightarrow> 'r list \<Rightarrow> int4 \<Rightarrow> bool" where
  "ids_issued key t last_value = (\<forall>r \<in> set t. sint (key r) \<le> sint last_value)"

text \<open>
  A step of a writing statement that can fail before the statement has written
  anything: then the statement ends there, with the datastore \<open>s\<close> it started from.
\<close>

definition after_in ::
  "store \<Rightarrow> 'a outcome \<Rightarrow> ('a \<Rightarrow> store \<times> unit outcome) \<Rightarrow> store \<times> unit outcome" where
  "after_in s a f =
     (case a of Returns x \<Rightarrow> f x | Raises e \<Rightarrow> (s, Raises e) | Hangs \<Rightarrow> (s, Hangs))"

subsection \<open>The pool and the object\<close>

text \<open>
  An asyncpg pool as one caller sees it: the arguments of \<open>create_pool\<close>, the number of
  connections that nobody holds at the moment, and whether \<open>close\<close> has been called.
\<close>

record pool =
  p_min_size :: int
  p_max_size :: int
  p_max_queries :: int
  p_max_inactive_connection_lifetime :: int
  p_free :: int
  p_closed :: bool

text \<open>
  The fields of \<open>__init__\<close>, then the world outside the object: the datastore, and how many
  pools \<open>create_pool\<close> has opened so far.
\<close>

record database =
  dsn :: string
  pool :: "pool option"
  min_size :: int
  max_size :: int
  max_queries :: int
  timeout :: int
  server :: store
  pools_opened :: nat

text \<open>
  \<open>asyncpg.create_pool\<close>: the constructor of the pool checks its bounds and raises
  \<open>ValueError\<close> for a bound it does not accept; a new pool has all its connections free.
\<close>

definition create_pool :: "int \<Rightarrow> int \<Rightarrow> int \<Rightarrow> int \<Rightarrow> pool outcome" where
  "create_pool min_sz max_sz max_q lifetime =
     (if max_sz \<le> 0 \<or> min_sz < 0 \<or> max_sz < min_sz \<or> max_q \<le> 0 \<or> lifetime < 0
      then Raises ValueError
      else Returns \<lparr>p_min_size = min_sz, p_max_size = max_sz, p_max_queries = max_q,
                     p_max_inactive_connection_lifetime = lifetime,
                     p_free = max_sz, p_closed = False\<rparr>)"

text \<open>\<open>__init__(self, min_size=10, max_size=500, max_queries=500, timeout=30)\<close>\<close>

definition init :: "string \<Rightarrow> store \<Rightarrow> int \<Rightarrow> int \<Rightarrow> int \<Rightarrow> int \<Rightarrow> database" where
  "init config_dsn s min_sz max_sz max_q tmo =
     \<lparr>dsn = config_dsn, pool = None, min_size = min_sz, max_size = max_sz,
      max_queries = max_q, timeout = tmo, server = s, pools_opened = 0\<rparr>"

definition connect :: "database \<Rightarrow> database \<times> unit outcome" where
  "connect db =
     (case create_pool (min_size db) (max_size db) (max_queries db) (timeout db) of
        Returns p \<Rightarrow> (db\<lparr>pool := Some p, pools_opened := Suc (pools_opened db)\<rparr>, Returns ())
      | Raises e \<Rightarrow> (db, Raises e)
      | Hangs \<Rightarrow> (db, Hangs))"

text \<open>
  \<open>Pool.acquire(timeout=None)\<close> of asyncpg.  A closed pool refuses.  With a connection
  free the caller gets it at once.  With none free the caller waits for one: here the
  other callers keep theirs, so a wait without a time limit never ends, and a wait with a
  time limit ends in \<open>TimeoutError\<close>.
\<close>

definition acquire :: "pool \<Rightarrow> int option \<Rightarrow> unit outcome" where
  "acquire p time_limit =
     (if p_closed p then Raises InterfaceError
      else if 0 < p_free p then Returns ()
      else (case time_limit of None \<Rightarrow> Hangs | Some t \<Rightarrow> Raises TimeoutError))"

text \<open>
  \<open>select\<close> and \<open>update\<close>.  The query and its arguments are the function \<open>q\<close> on the
  datastore: what \<open>conn.fetch(query, *args)\<close> returns or raises once the connection is
  there.  The connection goes back to the pool when the \<open>async with\<close> block is left, so
  the pool is the same after the call as before it.
\<close>

definition select ::
  "database \<Rightarrow> (store \<Rightarrow> 'r list outcome) \<Rightarrow> database \<times> 'r list outcome" where
  "select db q =
     (case (if pool db = None then connect db else (db, Returns ())) of
        (db1, Returns _) \<Rightarrow>
          (case pool db1 of
             None \<Rightarrow> (db1, Raises AttributeError)
           | Some p \<Rightarrow>
              (case acquire p None of
                 Returns _ \<Rightarrow> (db1, q (server db1))
               | Raises e \<Rightarrow> (db1, Raises e)
               | Hangs \<Rightarrow> (db1, Hangs)))
      | (db1, Raises e) \<Rightarrow> (db1, Raises e)
      | (db1, Hangs) \<Rightarrow> (db1, Hangs))"

text \<open>
  A writing statement gives the datastore it leaves and, when it fails, the error: the
  transaction around it is rolled back then, and the datastore it gives is the one after
  the rollback.
\<close>

definition update :: "database \<Rightarrow> (store \<Rightarrow> store \<times> unit outcome) \<Rightarrow> database \<times> unit outcome" where
  "update db q =
     (case (if pool db = None then connect db else (db, Returns ())) of
        (db1, Returns _) \<Rightarrow>
          (case pool db1 of
             None \<Rightarrow> (db1, Raises AttributeError)
           | Some p \<Rightarrow>
              (case acquire p None of
                 Returns _ \<Rightarrow> (case q (server db1) of (s, r) \<Rightarrow> (db1\<lparr>server := s\<rparr>, r))
               | Raises e \<Rightarrow> (db1, Raises e)
               | Hangs \<Rightarrow> (db1, Hangs)))
      | (db1, Raises e) \<Rightarrow> (db1, Raises e)
      | (db1, Hangs) \<Rightarrow> (db1, Hangs))"

text \<open>
  A call on \<open>db\<close> gets a connection: either there is no pool yet and \<open>create_pool\<close>
  accepts the bounds of the object, or the pool is open and has a connection free.
  \<open>established db\<close> is the object once the guard \<open>if self.pool is None\<close> has been passed.
\<close>

definition available :: "database \<Rightarrow> bool" where
  "available db =
     (case pool db of
        None \<Rightarrow> 0 < max_size db \<and> 0 \<le> min_size db \<and> min_size db \<le> max_size db \<and>
                0 < max_queries db \<and> 0 \<le> timeout db
      | Some p \<Rightarrow> \<not> p_closed p \<and> 0 < p_free p)"

definition established :: "database \<Rightarrow> database" where
  "established db = (if pool db = None then fst (connect db) else db)"

text \<open>\<open>__aexit__\<close>: \<open>await self.pool.close()\<close>\<close>

definition aexit :: "database \<Rightarrow> database \<times> unit outcome" where
  "aexit db =
     (case pool db of
        None \<Rightarrow> (db, Raises AttributeError)
      | Some p \<Rightarrow> (db\<lparr>pool := Some (p\<lparr>p_closed := True\<rparr>)\<rparr>, Returns ()))"

subsection \<open>Python numbers and strings\<close>

text \<open>\<open>int.bit_length\<close>, for a number that is not negative\<close>

function bit_length :: "int \<Rightarrow> int" where
  "bit_length n = (if n \<le> 0 then 0 else 1 + bit_length (n div 2))"
  by pat_completeness auto
termination
  by (relation "measure nat") auto

text \<open>\<open>m * 2 ^ e\<close> written with an odd mantissa, for a positive \<open>m\<close>\<close>

function odd_part :: "int \<Rightarrow> int \<Rightarrow> int \<times> int" where
  "odd_part m e =
     (if m \<le> 0 then (0, 0) else if even m then odd_part (m div 2) (e + 1) else (m, e))"
  by pat_completeness auto
termination
  by (relation "measure (\<lambda>(m, e). nat m)") auto

definition dyadic :: "int \<Rightarrow> int \<Rightarrow> pyfloat" where
  "dyadic m e = (case odd_part \<bar>m\<bar> e of (m', e') \<Rightarrow> Finite (sgn m * m') e')"

text \<open>
  Rounding \<open>m * 2 ^ e\<close> to a binary format with \<open>p\<close> bits of precision whose smallest
  positive number is \<open>2 ^ emin\<close>: the low bits that do not fit are dropped, to the nearest
  number of the format, a tie to the one with an even last bit.  The result is a mantissa
  and an exponent again; the format's largest number is not looked at here.
\<close>

definition round_to_binary :: "int \<Rightarrow> int \<Rightarrow> int \<Rightarrow> int \<Rightarrow> int \<times> int" where
  "round_to_binary p emin m e =
     (let dropped = max (bit_length \<bar>m\<bar> - p) (emin - e)
      in if dropped \<le> 0 then (m, e)
         else
           (let q = \<bar>m\<bar> div 2 ^ nat dropped;
                r = \<bar>m\<bar> mod 2 ^ nat dropped;
                half = 2 ^ nat (dropped - 1);
                q' = (if half < r \<or> (r = half \<and> odd q) then q + 1 else q)
            in (sgn m * q', e + dropped)))"

text \<open>is \<open>\<bar>m * 2 ^ e\<bar>\<close> below \<open>2 ^ emax\<close>?\<close>

definition below_pow2 :: "int \<Rightarrow> int \<Rightarrow> int \<Rightarrow> bool" where
  "below_pow2 emax m e = (m = 0 \<or> bit_length \<bar>m\<bar> + e \<le> emax)"

text \<open>
  What asyncpg sends for an argument, by the type of its parameter.  The driver reports
  every argument that it refuses as \<open>DataError\<close>, before the statement runs.

  \<open>INT\<close> and \<open>BIGINT\<close>: the Python \<open>int\<close> if it is in the range of the type.
\<close>

definition int4_encode :: "int \<Rightarrow> int4 outcome" where
  "int4_encode n = (if in_int4 n then Returns (word_of_int n) else Raises DataError)"

definition int8_encode :: "int \<Rightarrow> int8 outcome" where
  "int8_encode n = (if in_int8 n then Returns (word_of_int n) else Raises DataError)"

text \<open>
  \<open>TEXT\<close>: the string, which the server refuses when it holds the character \<open>NUL\<close>
  (code point 0).
\<close>

definition text_encode :: "string \<Rightarrow> string outcome" where
  "text_encode s = (if 0 \<in> set (map of_char s :: nat list) then Raises DataError else Returns s)"

text \<open>\<open>None\<close> is \<open>NULL\<close>, whatever the type\<close>

definition option_encode :: "('a \<Rightarrow> 'b outcome) \<Rightarrow> 'a option \<Rightarrow> 'b option outcome" where
  "option_encode encode v =
     (case v of
        None \<Rightarrow> Returns None
      | Some x \<Rightarrow> after (encode x) (\<lambda>a. Returns (Some a)))"

text \<open>
  \<open>REAL\<close> (\<open>float4\<close>): the C conversion of the Python \<open>float\<close> (a binary64) to a
  binary32, refused when a finite number becomes infinite.
\<close>

definition float4_encode :: "pyfloat \<Rightarrow> pyfloat outcome" where
  "float4_encode v =
     (case v of
        Finite m e \<Rightarrow>
          (case round_to_binary 24 (- 149) m e of
             (m', e') \<Rightarrow>
               if below_pow2 128 m' e' then Returns (dyadic m' e') else Raises DataError)
      | _ \<Rightarrow> Returns v)"

datatype pyval = PyNone | PyStr string | PyInt int | PyFloat pyfloat

text \<open>
  \<open>float(v)\<close>.  Reading a number out of a string is left to the parameter \<open>float_str\<close>
  (\<open>None\<close> for a string that is no number); an \<open>int\<close> is rounded to binary64.
\<close>

definition py_float :: "(string \<Rightarrow> pyfloat option) \<Rightarrow> pyval \<Rightarrow> pyfloat outcome" where
  "py_float float_str v =
     (case v of
        PyNone \<Rightarrow> Raises TypeError
      | PyStr s \<Rightarrow> (case float_str s of None \<Rightarrow> Raises ValueError | Some f \<Rightarrow> Returns f)
      | PyInt n \<Rightarrow>
          (case round_to_binary 53 (- 1074) n 0 of
             (m', e') \<Rightarrow>
               if below_pow2 1024 m' e' then Returns (dyadic m' e') else Raises OverflowError)
      | PyFloat f \<Rightarrow> Returns f)"

text \<open>\<open>s.split(sep)\<close> for a separator of one character\<close>

fun split :: "string \<Rightarrow> char \<Rightarrow> string list" where
  "split [] sep = [[]]"
| "split (c # cs) sep =
     (if c = sep then [] # split cs sep
      else (case split cs sep of [] \<Rightarrow> [[c]] | w # ws \<Rightarrow> (c # w) # ws))"

text \<open>\<open>xs[i]\<close> for \<open>i \<ge> 0\<close>\<close>

definition index :: "'a list \<Rightarrow> nat \<Rightarrow> 'a outcome" where
  "index xs i = (if i < length xs then Returns (xs ! i) else Raises IndexError)"

text \<open>
  \<open>int(s)\<close> for a string: white space around the number is dropped, a sign may come first,
  then decimal digits, with single underscores allowed between digits; a string of more
  than 4300 digits is refused (the limit that \<open>sys.get_int_max_str_digits()\<close> starts
  with).  A character is its code point, below 256; the white space that \<open>int\<close> drops
  among these is listed in \<open>is_space\<close>: the six of ASCII, \<open>NEL\<close> and the no-break space.
\<close>

definition is_space :: "char \<Rightarrow> bool" where
  "is_space c = (of_char c \<in> {9, 10, 11, 12, 13, 32, 133, 160 :: nat})"

definition is_digit :: "char \<Rightarrow> bool" where
  "is_digit c = (48 \<le> (of_char c :: nat) \<and> (of_char c :: nat) \<le> 57)"

definition digit_value :: "char \<Rightarrow> int" where
  "digit_value c = int (of_char c) - 48"

definition strip :: "string \<Rightarrow> string" where
  "strip s = rev (dropWhile is_space (rev (dropWhile is_space s)))"

text \<open>
  the digits after the first one, \<open>acc\<close> the value read so far, \<open>us\<close> whether the last
  character was an underscore
\<close>

fun more_digits :: "int \<Rightarrow> bool \<Rightarrow> string \<Rightarrow> int option" where
  "more_digits acc us [] = (if us then None else Some acc)"
| "more_digits acc us (c # cs) =
     (if is_digit c then more_digits (10 * acc + digit_value c) False cs
      else if c = CHR ''_'' \<and> \<not> us then more_digits acc True cs
      else None)"

definition digits :: "string \<Rightarrow> int option" where
  "digits s =
     (case s of
        [] \<Rightarrow> None
      | c # cs \<Rightarrow> if is_digit c then more_digits (digit_value c) False cs else None)"

definition py_int :: "string \<Rightarrow> int outcome" where
  "py_int s =
     (case (case strip s of
              c # cs \<Rightarrow>
                if c = CHR ''-'' then map_option uminus (digits cs)
                else if c = CHR ''+'' then digits cs
                else digits (c # cs)
            | [] \<Rightarrow> None) of
        None \<Rightarrow> Raises ValueError
      | Some n \<Rightarrow> if 4300 < length (filter is_digit s) then Raises ValueError else Returns n)"




subsection \<open>Deals\<close>

text \<open>\<open>SELECT * FROM deals WHERE user_id = $1 AND product_id = $2 AND paid = FALSE;\<close>\<close>

definition get_user_deal_by_product_id ::
  "database \<Rightarrow> int \<Rightarrow> int \<Rightarrow> database \<times> deals_row list outcome" where
  "get_user_deal_by_product_id db user_id product_id =
     select db (\<lambda>s.
       after (int8_encode user_id) (\<lambda>a1.
       after (int4_encode product_id) (\<lambda>a2.
         Returns (sql_select
           (\<lambda>r. d_user_id r = a1 \<and> d_product_id r = a2 \<and> d_paid r = False) (deals s)))))"

text \<open>\<open>UPDATE deals SET paid = True WHERE deal_id = $1;\<close>\<close>

definition set_paid_deal :: "database \<Rightarrow> int \<Rightarrow> database \<times> unit outcome" where
  "set_paid_deal db deal_id =
     update db (\<lambda>s.
       after_in s (int4_encode deal_id) (\<lambda>a1.
         (s\<lparr>deals := sql_update (\<lambda>r. r\<lparr>d_paid := True\<rparr>)
                         (\<lambda>r. d_deal_id r = a1) (deals s)\<rparr>, Returns ())))"

text \<open>
  \<open>INSERT INTO deals (user_id, deal_id, product_id, opportunity, create_time)
  VALUES ($1, $2, $3, $4, $5);\<close>  with \<open>time_now\<close> what \<open>datetime.now()\<close> returns.  The row
  takes the next value of the sequence of \<open>id\<close>, its primary key, and the default of
  \<open>paid\<close>.
\<close>

definition add_new_deal ::
  "datetime \<Rightarrow> database \<Rightarrow> int \<Rightarrow> int \<Rightarrow> int \<Rightarrow> pyfloat \<Rightarrow> database \<times> unit outcome" where
  "add_new_deal time_now db user_id deal_id product_id opportunity =
     update db (\<lambda>s.
       after_in s (int8_encode user_id) (\<lambda>a1.
       after_in s (int4_encode deal_id) (\<lambda>a2.
       after_in s (int4_encode product_id) (\<lambda>a3.
       after_in s (float4_encode opportunity) (\<lambda>a4.
       after_in s (nextval (deals_id_seq s)) (\<lambda>i.
         let r = \<lparr>d_id = i, d_user_id = a1, d_deal_id = a2, d_product_id = a3,
                  d_opportunity = a4, d_paid = False, d_create_time = time_now\<rparr>
         in if conflicts d_id r (deals s)
            then (s\<lparr>deals_id_seq := i\<rparr>, Raises UniqueViolationError)
            else (s\<lparr>deals_id_seq := i, deals := sql_insert r (deals s)\<rparr>, Returns ())))))))"

subsection \<open>Users\<close>

text \<open>
  \<open>INSERT INTO users (user_id, username, full_name) VALUES ($1, $2, $3)\<close>.  The columns
  that the statement does not name are \<open>NULL\<close>; the primary key refuses a second row with
  the same \<open>id\<close>, and \<open>uk_users_user_id\<close> a second row with the same \<open>user_id\<close>.
\<close>

definition add_new_user ::
  "database \<Rightarrow> int \<Rightarrow> string option \<Rightarrow> string \<Rightarrow> database \<times> unit outcome" where
  "add_new_user db user_id username full_name =
     update db (\<lambda>s.
       after_in s (int8_encode user_id) (\<lambda>a1.
       after_in s (option_encode text_encode username) (\<lambda>a2.
       after_in s (text_encode full_name) (\<lambda>a3.
       after_in s (nextval (users_id_seq s)) (\<lambda>i.
         let r = \<lparr>u_id = i, u_user_id = a1, u_username = a2, u_full_name = a3,
                  u_b24_id = None, u_im_link_b24 = None, u_lead_id = None\<rparr>
         in if conflicts u_id r (users s) \<or> conflicts u_user_id r (users s)
            then (s\<lparr>users_id_seq := i\<rparr>, Raises UniqueViolationError)
            else (s\<lparr>users_id_seq := i, users := sql_insert r (users s)\<rparr>, Returns ()))))))"

text \<open>\<open>SELECT * FROM users WHERE user_id = $1;\<close> and \<open>bool\<close> of the list of rows\<close>

definition is_user_exist :: "database \<Rightarrow> int \<Rightarrow> database \<times> bool outcome" where
  "is_user_exist db user_id =
     (case select db (\<lambda>s.
             after (int8_encode user_id) (\<lambda>a1.
               Returns (sql_select (\<lambda>r. u_user_id r = a1) (users s)))) of
        (db1, Returns result) \<Rightarrow> (db1, Returns (result \<noteq> []))
      | (db1, Raises e) \<Rightarrow> (db1, Raises e)
      | (db1, Hangs) \<Rightarrow> (db1, Hangs))"

text \<open>
  \<open>SELECT b24_id FROM users WHERE user_id = $1;\<close>, then \<open>bool(result[0].get('b24_id'))\<close>:
  \<open>bool\<close> of \<open>None\<close> and of \<open>0\<close> is \<open>False\<close>.
\<close>

definition is_b24_contact_exist :: "database \<Rightarrow> int \<Rightarrow> database \<times> bool outcome" where
  "is_b24_contact_exist db user_id =
     (case select db (\<lambda>s.
             after (int8_encode user_id) (\<lambda>a1.
               Returns (map u_b24_id (sql_select (\<lambda>r. u_user_id r = a1) (users s))))) of
        (db1, Returns result) \<Rightarrow>
          (case index result 0 of
             Returns b24_id \<Rightarrow>
               (db1, Returns (case b24_id of None \<Rightarrow> False | Some n \<Rightarrow> sint n \<noteq> 0))
           | Raises e \<Rightarrow> (db1, Raises e)
           | Hangs \<Rightarrow> (db1, Hangs))
      | (db1, Raises e) \<Rightarrow> (db1, Raises e)
      | (db1, Hangs) \<Rightarrow> (db1, Hangs))"

subsection \<open>Button statistics\<close>




subsection \<open>Products\<close>

text \<open>
  One dictionary of the list that \<open>B24.get_product_list\<close> returns: each field is what
  \<open>product.get\<close> gives for the key, \<open>None\<close> for a key that is absent or \<open>null\<close>.
\<close>

record product =
  get_id :: "int option"
  get_name :: "string option"
  get_dateActiveFrom :: "string option"
  get_dateActiveTo :: "string option"
  get_PRICE :: pyval
  get_CURRENCY_ID :: "string option"
  get_detailText :: "string option"

text \<open>
  \<open>datetime.strptime(product.get(key).split('+')[0], '%Y-%m-%dT%H:%M:%S')\<close>; \<open>strptime\<close>
  is a parameter, \<open>None\<close> when the string does not fit the format.
\<close>

definition parse_date ::
  "(string \<Rightarrow> string \<Rightarrow> datetime option) \<Rightarrow> string option \<Rightarrow> datetime outcome" where
  "parse_date strptime v =
     (case v of
        None \<Rightarrow> Raises AttributeError
      | Some s \<Rightarrow>
          (case index (split s CHR ''+'') 0 of
             Returns d \<Rightarrow>
               (case strptime d ''%Y-%m-%dT%H:%M:%S'' of
                  None \<Rightarrow> Raises ValueError
                | Some t \<Rightarrow> Returns t)
           | Raises e \<Rightarrow> Raises e
           | Hangs \<Rightarrow> Hangs))"

text \<open>
  \<open>INSERT INTO products (id, name, active_from, active_to, price, currency_id,
  description) VALUES ($1, $2, $3, $4, $5, $6, $7);\<close>  The arguments are encoded first;
  \<open>id\<close> is the primary key, so it is neither \<open>NULL\<close> nor taken.
\<close>

definition insert_product ::
  "database \<Rightarrow> int option \<Rightarrow> string option \<Rightarrow> datetime \<Rightarrow> datetime \<Rightarrow> pyfloat \<Rightarrow>
   string option \<Rightarrow> string option \<Rightarrow> database \<times> unit outcome" where
  "insert_product db product_id name active_from active_to price currency_id description =
     update db (\<lambda>s.
       after_in s (option_encode int4_encode product_id) (\<lambda>a1.
       after_in s (option_encode text_encode name) (\<lambda>a2.
       after_in s (float4_encode price) (\<lambda>a5.
       after_in s (option_encode text_encode currency_id) (\<lambda>a6.
       after_in s (option_encode text_encode description) (\<lambda>a7.
         case a1 of
           None \<Rightarrow> (s, Raises NotNullViolationError)
         | Some i \<Rightarrow>
            (let r = \<lparr>pr_id = i, pr_name = a2, pr_active_from = active_from,
                      pr_active_to = active_to, pr_price = a5, pr_currency_id = a6,
                      pr_description = a7\<rparr>
             in if conflicts pr_id r (products s)
                then (s, Raises UniqueViolationError)
                else (s\<lparr>products := sql_insert r (products s)\<rparr>, Returns ()))))))))"

text \<open>the body of the \<open>for\<close> loop of \<open>update_table_products\<close>, then the loop\<close>

definition insert_one ::
  "(string \<Rightarrow> string \<Rightarrow> datetime option) \<Rightarrow> (string \<Rightarrow> pyfloat option) \<Rightarrow>
   database \<Rightarrow> product \<Rightarrow> database \<times> unit outcome" where
  "insert_one strptime float_str db product =
     (let product_id = get_id product;
          name = get_name product
      in case parse_date strptime (get_dateActiveFrom product) of
           Returns active_from \<Rightarrow>
             (case parse_date strptime (get_dateActiveTo product) of
                Returns active_to \<Rightarrow>
                  (case py_float float_str (get_PRICE product) of
                     Returns price \<Rightarrow>
                       (let currency_id = get_CURRENCY_ID product;
                            description = get_detailText product
                        in insert_product db product_id name active_from active_to price
                             currency_id description)
                   | Raises e \<Rightarrow> (db, Raises e)
                   | Hangs \<Rightarrow> (db, Hangs))
              | Raises e \<Rightarrow> (db, Raises e)
              | Hangs \<Rightarrow> (db, Hangs))
         | Raises e \<Rightarrow> (db, Raises e)
         | Hangs \<Rightarrow> (db, Hangs))"

fun insert_all ::
  "(string \<Rightarrow> string \<Rightarrow> datetime option) \<Rightarrow> (string \<Rightarrow> pyfloat option) \<Rightarrow>
   database \<Rightarrow> product list \<Rightarrow> database \<times> unit outcome" where
  "insert_all strptime float_str db [] = (db, Returns ())"
| "insert_all strptime float_str db (product # products_list) =
     (case insert_one strptime float_str db product of
        (db1, Returns _) \<Rightarrow> insert_all strptime float_str db1 products_list
      | (db1, Raises e) \<Rightarrow> (db1, Raises e)
      | (db1, Hangs) \<Rightarrow> (db1, Hangs))"

text \<open>\<open>TRUNCATE TABLE products;\<close> then the loop\<close>

definition update_table_products ::
  "(string \<Rightarrow> string \<Rightarrow> datetime option) \<Rightarrow> (string \<Rightarrow> pyfloat option) \<Rightarrow>
   database \<Rightarrow> product list \<Rightarrow> database \<times> unit outcome" where
  "update_table_products strptime float_str db products_list =
     (case update db (\<lambda>s. (s\<lparr>products := []\<rparr>, Returns ())) of
        (db1, Returns _) \<Rightarrow> insert_all strptime float_str db1 products_list
      | (db1, Raises e) \<Rightarrow> (db1, Raises e)
      | (db1, Hangs) \<Rightarrow> (db1, Hangs))"

text \<open>\<open>SELECT * FROM products;\<close>\<close>

definition get_products :: "database \<Rightarrow> database \<times> products_row list outcome" where
  "get_products db = select db (\<lambda>s. Returns (products s))"

text \<open>\<open>SELECT * FROM products WHERE id = $1;\<close>\<close>

definition get_product_by_id :: "database \<Rightarrow> int \<Rightarrow> database \<times> products_row list outcome" where
  "get_product_by_id db product_id =
     select db (\<lambda>s.
       after (int4_encode product_id) (\<lambda>a1.
         Returns (sql_select (\<lambda>r. pr_id r = a1) (products s))))"

text \<open>
  What the loop body makes of a product of the list, the table left aside: the row that
  its \<open>INSERT\<close> adds when no row has the \<open>id\<close> yet, with the price as the \<open>REAL\<close> column
  holds it, or the exception that the body raises.
\<close>

definition stored_row ::
  "(string \<Rightarrow> string \<Rightarrow> datetime option) \<Rightarrow> (string \<Rightarrow> pyfloat option) \<Rightarrow>
   product \<Rightarrow> products_row outcome" where
  "stored_row strptime float_str product =
     after (parse_date strptime (get_dateActiveFrom product)) (\<lambda>active_from.
     after (parse_date strptime (get_dateActiveTo product)) (\<lambda>active_to.
     after (py_float float_str (get_PRICE product)) (\<lambda>price.
     after (option_encode int4_encode (get_id product)) (\<lambda>a1.
     after (option_encode text_encode (get_name product)) (\<lambda>a2.
     after (float4_encode price) (\<lambda>a5.
     after (option_encode text_encode (get_CURRENCY_ID product)) (\<lambda>a6.
     after (option_encode text_encode (get_detailText product)) (\<lambda>a7.
       case a1 of
         None \<Rightarrow> Raises NotNullViolationError
       | Some i \<Rightarrow>
           Returns \<lparr>pr_id = i, pr_name = a2, pr_active_from = active_from,
                    pr_active_to = active_to, pr_price = a5, pr_currency_id = a6,
                    pr_description = a7\<rparr>))))))))"

subsection \<open>Payments\<close>

text \<open>the fields of aiogram's \<open>SuccessfulPayment\<close> that the code reads\<close>

record successful_payment =
  currency :: string
  total_amount :: int
  invoice_payload :: string
  telegram_payment_charge_id :: string
  provider_payment_charge_id :: string

text \<open>
  \<open>int(payment_data.invoice_payload.split(':')[i])\<close>, and \<open>add_payment\<close> with its
  \<open>INSERT INTO payments (user_id, currency, total_amount, product_id, deal_id,
  telegram_payment_charge_id, provider_payment_charge_id) VALUES ($1, ..., $7);\<close>
\<close>

definition payload_part :: "successful_payment \<Rightarrow> nat \<Rightarrow> int outcome" where
  "payload_part payment_data i =
     (case index (split (invoice_payload payment_data) CHR '':'') i of
        Returns part \<Rightarrow> py_int part
      | Raises e \<Rightarrow> Raises e
      | Hangs \<Rightarrow> Hangs)"


subsection \<open>States to run the methods on\<close>

definition empty_store :: store where
  "empty_store =
     \<lparr>users = [], users_id_seq = 0, deals = [], deals_id_seq = 0, buttons_stat = [],
      buttons_stat_id_seq = 0, products = [], payments = [], payments_id_seq = 0\<rparr>"

text \<open>\<open>Database()\<close> on empty tables\<close>

definition new_database :: database where
  "new_database = init ''postgresql://bot@db/bot'' empty_store 10 500 500 30"

definition noon :: datetime where
  "noon = \<lparr>year = 2024, month = 1, day = 15, hour = 12, minute = 0, second = 0,
           microsecond = 0\<rparr>"

text \<open>
  The scenario of the specification, after its first two steps: user 42, ``alice'', has
  a deal 900 of 150.0 on product 7.  A second user has a deal 901 of 19.99 on the same
  product.  The pool has been opened by the first call.
\<close>

definition deal_900 :: deals_row where
  "deal_900 =
     \<lparr>d_id = 1, d_user_id = 42, d_deal_id = 900, d_product_id = 7,
      d_opportunity = Finite 75 1, d_paid = False, d_create_time = noon\<rparr>"

definition deal_901 :: deals_row where
  "deal_901 =
     \<lparr>d_id = 2, d_user_id = 43, d_deal_id = 901, d_product_id = 7,
      d_opportunity = Finite 10480517 (- 19), d_paid = False, d_create_time = noon\<rparr>"

definition scenario_store :: store where
  "scenario_store =
     \<lparr>users =
        [\<lparr>u_id = 1, u_user_id = 42, u_username = Some ''alice'', u_full_name = ''Alice A'',
          u_b24_id = None, u_im_link_b24 = None, u_lead_id = None\<rparr>,
         \<lparr>u_id = 2, u_user_id = 43, u_username = None, u_full_name = ''Bob B'',
          u_b24_id = None, u_im_link_b24 = None, u_lead_id = None\<rparr>],
      users_id_seq = 2, deals = [deal_900, deal_901], deals_id_seq = 2, buttons_stat = [],
      buttons_stat_id_seq = 0, products = [], payments = [], payments_id_seq = 0\<rparr>"

definition open_pool :: pool where
  "open_pool =
     \<lparr>p_min_size = 10, p_max_size = 500, p_max_queries = 500,
      p_max_inactive_connection_lifetime = 30, p_free = 500, p_closed = False\<rparr>"

definition scenario_db :: database where
  "scenario_db =
     \<lparr>dsn = ''postgresql://bot@db/bot'', pool = Some open_pool,
      min_size = 10, max_size = 500, max_queries = 500, timeout = 30,
      server = scenario_store, pools_opened = 1\<rparr>"

text \<open>the calls that lead there\<close>

definition scenario_calls :: database where
  "scenario_calls =
     fst (add_new_deal noon
       (fst (add_new_user
         (fst (add_new_deal noon
           (fst (add_new_user new_database 42 (Some ''alice'') ''Alice A''))
           42 900 7 (Finite 75 1)))
         43 None ''Bob B''))
       43 901 7 (Finite 5626684784446013 (- 48)))"

text \<open>the same object when the other callers hold all 500 connections\<close>

definition exhausted_pool :: pool where
  "exhausted_pool = open_pool\<lparr>p_free := 0\<rparr>"

definition exhausted_db :: database where
  "exhausted_db = scenario_db\<lparr>pool := Some exhausted_pool\<rparr>"

text \<open>the same object after \<open>__aexit__\<close>\<close>

definition closed_db :: database where
  "closed_db = scenario_db\<lparr>pool := Some (open_pool\<lparr>p_closed := True\<rparr>)\<rparr>"

text \<open>the same datastore and an object that has not opened its pool yet\<close>

definition fresh_db :: database where
  "fresh_db = init ''postgresql://bot@db/bot'' scenario_store 10 500 500 30"





text \<open>
  A catalogue of one product at 19.99, and a later one of another product.  The two
  parameters are \<open>datetime.strptime\<close> and \<open>float\<close> on the strings of these products:
  \<open>float('19.99')\<close> is the binary64 number nearest to 19.99.
\<close>

definition strptime_example :: "string \<Rightarrow> string \<Rightarrow> datetime option" where
  "strptime_example date_string format =
     (if date_string = ''2024-01-15T12:00:00'' \<and> format = ''%Y-%m-%dT%H:%M:%S''
      then Some noon else None)"

definition float_example :: "string \<Rightarrow> pyfloat option" where
  "float_example s =
     (if s = ''19.99'' then Some (Finite 5626684784446013 (- 48))
      else if s = ''1500.00'' then Some (Finite 375 2)
      else None)"

definition product_7 :: product where
  "product_7 =
     \<lparr>get_id = Some 7, get_name = Some ''Course'',
      get_dateActiveFrom = Some ''2024-01-15T12:00:00+03:00'',
      get_dateActiveTo = Some ''2024-01-15T12:00:00+03:00'',
      get_PRICE = PyStr ''19.99'', get_CURRENCY_ID = Some ''RUB'',
      get_detailText = None\<rparr>"

definition product_8 :: product where
  "product_8 =
     \<lparr>get_id = Some 8, get_name = Some ''Workshop'',
      get_dateActiveFrom = Some ''2024-01-15T12:00:00+03:00'',
      get_dateActiveTo = Some ''2024-01-15T12:00:00+03:00'',
      get_PRICE = PyStr ''1500.00'', get_CURRENCY_ID = Some ''RUB'',
      get_detailText = Some ''Two days''\<rparr>"

definition row_7 :: products_row where
  "row_7 =
     \<lparr>pr_id = 7, pr_name = Some ''Course'', pr_active_from = noon, pr_active_to = noon,
      pr_price = Finite 10480517 (- 19), pr_currency_id = Some ''RUB'',
      pr_description = None\<rparr>"

definition row_8 :: products_row where
  "row_8 =
     \<lparr>pr_id = 8, pr_name = Some ''Workshop'', pr_active_from = noon, pr_active_to = noon,
      pr_price = Finite 375 2, pr_currency_id = Some ''RUB'',
      pr_description = Some ''Two days''\<rparr>"

definition catalog_db :: database where
  "catalog_db = scenario_db\<lparr>server := scenario_store\<lparr>products := [row_7]\<rparr>\<rparr>"

definition catalog2_db :: database where
  "catalog2_db = scenario_db\<lparr>server := scenario_store\<lparr>products := [row_8]\<rparr>\<rparr>"

section \<open>What the methods do\<close>

subsection \<open>The guard, the pool and the statement\<close>

lemma connect_available:
  "pool db = None \<Longrightarrow> available db \<Longrightarrow>
   connect db = (db\<lparr>pool := Some \<lparr>p_min_size = min_size db, p_max_size = max_size db,
       p_max_queries = max_queries db, p_max_inactive_connection_lifetime = timeout db,
       p_free = max_size db, p_closed = False\<rparr>, pools_opened := Suc (pools_opened db)\<rparr>, Returns ())"
  by (auto simp: connect_def create_pool_def available_def)

lemma server_established [simp]: "server (established db) = server db"
  by (simp add: established_def connect_def create_pool_def split: outcome.splits)

lemma available_established: "available db \<Longrightarrow> available (established db)"
  by (cases "pool db") (auto simp: established_def connect_available, auto simp: available_def)

lemma pool_established: "available db \<Longrightarrow> pool (established db) \<noteq> None"
  by (cases "pool db") (auto simp: established_def connect_available)

lemma established_idem: "available db \<Longrightarrow> established (established db) = established db"
  using pool_established [of db] by (auto simp: established_def [of "established db"])

lemma select_available:
  "available db \<Longrightarrow> select db q = (established db, q (server db))"
  by (cases "pool db")
     (auto simp: select_def established_def connect_available acquire_def available_def)

lemma update_available:
  "available db \<Longrightarrow>
   update db q = ((established db)\<lparr>server := fst (q (server db))\<rparr>, snd (q (server db)))"
  by (cases "pool db")
     (auto simp: update_def established_def connect_available acquire_def available_def
           split: prod.splits)

lemma select_unavailable:
  "\<not> available db \<Longrightarrow> \<exists>r. select db q = (db, r) \<and> (\<forall>x. r \<noteq> Returns x)"
  by (cases "pool db")
     (auto simp: select_def connect_def create_pool_def acquire_def available_def
           split: option.splits)

lemma update_unavailable:
  "\<not> available db \<Longrightarrow> \<exists>r. update db q = (db, r) \<and> r \<noteq> Returns ()"
  by (cases "pool db")
     (auto simp: update_def connect_def create_pool_def acquire_def available_def
           split: option.splits)

lemma available_server [simp]: "available (db\<lparr>server := s\<rparr>) = available db"
  by (simp add: available_def split: option.splits)

lemma established_server [simp]:
  "established (db\<lparr>server := s\<rparr>) = (established db)\<lparr>server := s\<rparr>"
  by (simp add: established_def connect_def create_pool_def)

lemma update_again:
  assumes "available db"
  shows "update ((established db)\<lparr>server := s\<rparr>) q =
         ((established db)\<lparr>server := fst (q s)\<rparr>, snd (q s))"
proof -
  have "available ((established db)\<lparr>server := s\<rparr>)"
    using available_established [OF assms] by simp
  from update_available [OF this, of q] show ?thesis
    by (simp add: established_idem [OF assms])
qed

lemma select_again:
  assumes "available db"
  shows "select ((established db)\<lparr>server := s\<rparr>) q = ((established db)\<lparr>server := s\<rparr>, q s)"
proof -
  have "available ((established db)\<lparr>server := s\<rparr>)"
    using available_established [OF assms] by simp
  from select_available [OF this, of q] show ?thesis
    by (simp add: established_idem [OF assms])
qed

lemma established_same: "established db\<lparr>server := server db\<rparr> = established db"
  by simp

subsection \<open>Arguments and columns\<close>

lemma in_int4_sint [simp]: "in_int4 (sint (w :: int4))"
  using sint_ge [of w] sint_lt [of w] by (simp add: in_int4_def)

lemma in_int8_sint [simp]: "in_int8 (sint (w :: int8))"
  using sint_ge [of w] sint_lt [of w] by (simp add: in_int8_def)

lemma sint_int4: "in_int4 n \<Longrightarrow> sint (word_of_int n :: int4) = n"
  by (simp add: in_int4_def signed_of_int signed_take_bit_int_eq_self)

lemma sint_int8: "in_int8 n \<Longrightarrow> sint (word_of_int n :: int8) = n"
  by (simp add: in_int8_def signed_of_int signed_take_bit_int_eq_self)

lemma int4_eq: "in_int4 n \<Longrightarrow> w = (word_of_int n :: int4) \<longleftrightarrow> sint w = n"
  using sint_int4 [of n] by auto

lemma int8_eq: "in_int8 n \<Longrightarrow> w = (word_of_int n :: int8) \<longleftrightarrow> sint w = n"
  using sint_int8 [of n] by auto

lemma int4_encode_in: "in_int4 n \<Longrightarrow> int4_encode n = Returns (word_of_int n)"
  by (simp add: int4_encode_def)

lemma int4_encode_out: "\<not> in_int4 n \<Longrightarrow> int4_encode n = Raises DataError"
  by (simp add: int4_encode_def)

lemma int8_encode_in: "in_int8 n \<Longrightarrow> int8_encode n = Returns (word_of_int n)"
  by (simp add: int8_encode_def)

lemma int8_encode_out: "\<not> in_int8 n \<Longrightarrow> int8_encode n = Raises DataError"
  by (simp add: int8_encode_def)

lemma int4_encode_sint [simp]: "int4_encode (sint w) = Returns w"
  by (simp add: int4_encode_def)

lemma int8_encode_sint [simp]: "int8_encode (sint w) = Returns w"
  by (simp add: int8_encode_def)

lemma after_simps [simp]:
  "after (Returns x) f = f x" "after (Raises e) f = Raises e" "after Hangs f = Hangs"
  by (simp_all add: after_def)

lemma after_in_simps [simp]:
  "after_in s (Returns x) g = g x" "after_in s (Raises e) g = (s, Raises e)"
  "after_in s Hangs g = (s, Hangs)"
  by (simp_all add: after_in_def)

lemma nextval_in: "sint w < 2147483647 \<Longrightarrow> nextval w = Returns (w + 1)"
  by (simp add: nextval_def)

lemma nextval_out: "\<not> sint w < 2147483647 \<Longrightarrow> nextval w = Raises DataError"
  by (simp add: nextval_def)

lemma sint_succ: "sint (w :: int4) < 2147483647 \<Longrightarrow> sint (w + 1) = sint w + 1"
proof -
  assume a: "sint w < 2147483647"
  have "in_int4 (sint w + 1)"
    using a sint_ge [of w] by (simp add: in_int4_def)
  then have "sint (word_of_int (sint w + 1) :: int4) = sint w + 1"
    by (rule sint_int4)
  then show ?thesis
    by simp
qed

subsection \<open>Tables\<close>

lemma sql_update_Nil [simp]: "sql_update f c [] = []"
  by (simp add: sql_update_def)

lemma sql_update_Cons [simp]:
  "sql_update f c (r # t) = (if c r then f r else r) # sql_update f c t"
  by (simp add: sql_update_def)

lemma length_sql_update [simp]: "length (sql_update f c t) = length t"
  by (simp add: sql_update_def)

lemma nth_sql_update:
  "i < length t \<Longrightarrow> sql_update f c t ! i = (if c (t ! i) then f (t ! i) else t ! i)"
  by (simp add: sql_update_def)

lemma map_sql_update: "(\<And>r. g (f r) = g r) \<Longrightarrow> map g (sql_update f c t) = map g t"
  by (induction t) simp_all

lemma sql_update_twice:
  "(\<And>r. c r \<Longrightarrow> c (f r) \<and> f (f r) = f r) \<Longrightarrow>
   sql_update f c (sql_update f c t) = sql_update f c t"
  by (induction t) simp_all

lemma sql_update_holds:
  "(\<And>r. c r \<Longrightarrow> P (f r)) \<Longrightarrow> (\<And>r. \<not> c r \<Longrightarrow> Q r \<Longrightarrow> P r) \<Longrightarrow>
   x \<in> set (sql_update f c t) \<Longrightarrow> Q x \<Longrightarrow> P x"
  by (induction t) (auto split: if_splits)

lemma sql_update_cases:
  "x \<in> set (sql_update f c t) \<Longrightarrow>
   (\<exists>r \<in> set t. c r \<and> x = f r) \<or> (x \<in> set t \<and> \<not> c x)"
  by (induction t) (auto split: if_splits)

lemma sql_select_iff [simp]: "x \<in> set (sql_select c t) \<longleftrightarrow> x \<in> set t \<and> c x"
  by (simp add: sql_select_def)

lemma sql_select_empty: "(\<And>r. r \<in> set t \<Longrightarrow> \<not> c r) \<Longrightarrow> sql_select c t = []"
  by (induction t) (simp_all add: sql_select_def)

lemma sql_select_Nil [simp]: "sql_select c [] = []"
  by (simp add: sql_select_def)

lemma sql_select_Cons [simp]:
  "sql_select c (r # t) = (if c r then r # sql_select c t else sql_select c t)"
  by (simp add: sql_select_def)

lemma sql_select_append [simp]:
  "sql_select c (t @ t') = sql_select c t @ sql_select c t'"
  by (simp add: sql_select_def)

lemma sql_select_nonempty: "sql_select c t \<noteq> [] \<longleftrightarrow> (\<exists>r \<in> set t. c r)"
  by (induction t) auto

lemma sql_select_cong: "(\<And>r. r \<in> set t \<Longrightarrow> c r = c' r) \<Longrightarrow> sql_select c t = sql_select c' t"
  by (induction t) simp_all

subsection \<open>Deals\<close>

lemma set_paid_deal_available:
  "available db \<Longrightarrow> in_int4 deal_id \<Longrightarrow>
   set_paid_deal db deal_id =
     ((established db)\<lparr>server := (server db)\<lparr>deals :=
        sql_update (\<lambda>r. r\<lparr>d_paid := True\<rparr>) (\<lambda>r. d_deal_id r = word_of_int deal_id)
          (deals (server db))\<rparr>\<rparr>,
      Returns ())"
  unfolding set_paid_deal_def by (simp add: update_available int4_encode_in)

lemma set_paid_deal_refused:
  "available db \<Longrightarrow> \<not> in_int4 deal_id \<Longrightarrow>
   set_paid_deal db deal_id = (established db, Raises DataError)"
  unfolding set_paid_deal_def by (simp add: update_available int4_encode_out)

lemma set_paid_deal_unavailable:
  "\<not> available db \<Longrightarrow> \<exists>r. set_paid_deal db deal_id = (db, r) \<and> r \<noteq> Returns ()"
  unfolding set_paid_deal_def by (rule update_unavailable)

lemma get_user_deal_by_product_id_available:
  "available db \<Longrightarrow> in_int8 user_id \<Longrightarrow> in_int4 product_id \<Longrightarrow>
   get_user_deal_by_product_id db user_id product_id =
     (established db,
      Returns (sql_select (\<lambda>r. sint (d_user_id r) = user_id \<and> sint (d_product_id r) = product_id \<and>
                                d_paid r = False) (deals (server db))))"
  unfolding get_user_deal_by_product_id_def
  by (simp add: select_available int8_encode_in int4_encode_in int4_eq int8_eq)

lemma get_user_deal_by_product_id_refused:
  "available db \<Longrightarrow> \<not> (in_int8 user_id \<and> in_int4 product_id) \<Longrightarrow>
   get_user_deal_by_product_id db user_id product_id = (established db, Raises DataError)"
  unfolding get_user_deal_by_product_id_def
  by (auto simp: select_available int8_encode_def int4_encode_def)

lemma get_user_deal_by_product_id_unavailable:
  "\<not> available db \<Longrightarrow>
   \<exists>r. get_user_deal_by_product_id db user_id product_id = (db, r) \<and> (\<forall>x. r \<noteq> Returns x)"
  unfolding get_user_deal_by_product_id_def by (rule select_unavailable)

text \<open>
  C4.  \<open>set_paid_deal\<close> is idempotent: whatever the deal and the tables, a second call
  leaves the state and the outcome of the first, and the table has the rows it had, none
  added.  It raises nothing when a connection is to be had and the \<open>deal_id\<close> is in the
  range of \<open>INT\<close>, also when no row has the \<open>deal_id\<close>, and then every row with the
  \<open>deal_id\<close> has \<open>paid = true\<close>.  For a \<open>deal_id\<close> out of that range the driver raises
  \<open>DataError\<close> and the tables stay as they are; without a connection the call does not
  return either.
\<close>

theorem set_paid_deal_idempotent:
  "set_paid_deal (fst (set_paid_deal db deal_id)) deal_id = set_paid_deal db deal_id \<and>
   (available db \<and> in_int4 deal_id \<longrightarrow> snd (set_paid_deal db deal_id) = Returns ()) \<and>
   (available db \<and> \<not> in_int4 deal_id \<longrightarrow>
      snd (set_paid_deal db deal_id) = Raises DataError \<and>
      server (fst (set_paid_deal db deal_id)) = server db) \<and>
   (\<not> available db \<longrightarrow>
      fst (set_paid_deal db deal_id) = db \<and> snd (set_paid_deal db deal_id) \<noteq> Returns ()) \<and>
   (snd (set_paid_deal db deal_id) = Returns () \<longrightarrow>
      (\<forall>r \<in> set (deals (server (fst (set_paid_deal db deal_id)))).
         sint (d_deal_id r) = deal_id \<longrightarrow> d_paid r = True)) \<and>
   map d_id (deals (server (fst (set_paid_deal db deal_id)))) = map d_id (deals (server db))"
proof (cases "available db")
  case True
  show ?thesis
  proof (cases "in_int4 deal_id")
    case in_range: True
    define a1 :: int4 where "a1 = word_of_int deal_id"
    define t where "t = sql_update (\<lambda>r. r\<lparr>d_paid := True\<rparr>) (\<lambda>r. d_deal_id r = a1)
                          (deals (server db))"
    define db1 where "db1 = (established db)\<lparr>server := (server db)\<lparr>deals := t\<rparr>\<rparr>"
    have first: "set_paid_deal db deal_id = (db1, Returns ())"
      unfolding db1_def t_def a1_def by (rule set_paid_deal_available [OF True in_range])
    have tt: "sql_update (\<lambda>r. r\<lparr>d_paid := True\<rparr>) (\<lambda>r. d_deal_id r = a1) t = t"
      unfolding t_def by (rule sql_update_twice) simp
    have "set_paid_deal db1 deal_id =
        ((established db)\<lparr>server := (server db)\<lparr>deals :=
           sql_update (\<lambda>r. r\<lparr>d_paid := True\<rparr>) (\<lambda>r. d_deal_id r = a1) t\<rparr>\<rparr>, Returns ())"
      unfolding set_paid_deal_def db1_def a1_def
      by (simp add: update_again [OF True] int4_encode_in [OF in_range])
    then have second: "set_paid_deal db1 deal_id = (db1, Returns ())"
      unfolding db1_def by (simp only: tt)
    have deals1: "deals (server db1) = t"
      by (simp add: db1_def)
    have paid: "\<forall>r \<in> set t. sint (d_deal_id r) = deal_id \<longrightarrow> d_paid r = True"
    proof (intro ballI impI)
      fix r assume "r \<in> set t" "sint (d_deal_id r) = deal_id"
      then have "r \<in> set t" "d_deal_id r = a1"
        by (simp_all add: a1_def int4_eq [OF in_range])
      then show "d_paid r = True"
        unfolding t_def
        by (rule sql_update_holds [where P = "\<lambda>r. d_paid r = True", rotated 2]) simp_all
    qed
    have ids: "map d_id t = map d_id (deals (server db))"
      unfolding t_def by (rule map_sql_update) simp
    show ?thesis
      unfolding first fst_conv snd_conv second deals1 using paid ids True in_range by blast
  next
    case out_of_range: False
    have first: "set_paid_deal db deal_id = (established db, Raises DataError)"
      by (rule set_paid_deal_refused [OF True out_of_range])
    have "set_paid_deal (established db) deal_id =
        (established (established db), Raises DataError)"
      by (rule set_paid_deal_refused [OF available_established [OF True] out_of_range])
    then have second: "set_paid_deal (established db) deal_id = (established db, Raises DataError)"
      by (simp add: established_idem [OF True])
    show ?thesis
      unfolding first fst_conv snd_conv second using True out_of_range by simp
  qed
next
  case False
  obtain r where r: "set_paid_deal db deal_id = (db, r)" "r \<noteq> Returns ()"
    using set_paid_deal_unavailable [OF False] by blast
  show ?thesis
    unfolding r fst_conv snd_conv using False r(2) by blast
qed

theorem set_paid_deal_idempotent_witness:
  "available scenario_db \<and> in_int4 900 \<and>
   snd (set_paid_deal scenario_db 900) = Returns () \<and>
   (\<exists>r \<in> set (deals (server (fst (set_paid_deal scenario_db 900)))).
      sint (d_deal_id r) = 900 \<and> d_paid r = True) \<and>
   set_paid_deal (fst (set_paid_deal scenario_db 900)) 900 = set_paid_deal scenario_db 900 \<and>
   \<not> in_int4 (- 2147483649) \<and>
   snd (set_paid_deal scenario_db (- 2147483649)) = Raises DataError \<and>
   server (fst (set_paid_deal scenario_db (- 2147483649))) = server scenario_db \<and>
   \<not> available closed_db \<and>
   fst (set_paid_deal closed_db 900) = closed_db \<and>
   snd (set_paid_deal closed_db 900) \<noteq> Returns ()"
proof -
  have a: "available scenario_db \<and> in_int4 900 \<and> \<not> in_int4 (- 2147483649) \<and>
      \<not> available closed_db"
    by code_simp
  have e: "\<exists>r \<in> set (deals (server (fst (set_paid_deal scenario_db 900)))).
      sint (d_deal_id r) = 900"
    by code_simp
  from set_paid_deal_idempotent [of scenario_db 900]
    set_paid_deal_idempotent [of scenario_db "- 2147483649"]
    set_paid_deal_idempotent [of closed_db 900] a e
  show ?thesis
    by blast
qed

text \<open>
  C4, as the specification has it, fails: the call does raise, for a \<open>deal_id\<close> beyond
  the largest \<open>INT\<close> on the tables of the scenario, and for any \<open>deal_id\<close> on an object
  whose pool has been closed.
\<close>

theorem set_paid_deal_raises:
  "available scenario_db \<and>
   set_paid_deal scenario_db 2147483648 = (scenario_db, Raises DataError) \<and>
   set_paid_deal closed_db 900 = (closed_db, Raises InterfaceError)"
  by code_simp

text \<open>
  C3.  Every row that \<open>get_user_deal_by_product_id\<close> returns has \<open>paid = false\<close>.  Once
  \<open>set_paid_deal\<close> has been called with the \<open>deal_id\<close> of such a row, the call succeeds and
  the same query returns neither that row nor any row of that deal.  The query returns
  whenever a connection is to be had and its arguments are in the ranges of \<open>BIGINT\<close> and
  \<open>INT\<close>.
\<close>

theorem unpaid_deal_leaves_result:
  "(available db \<and> in_int8 user_id \<and> in_int4 product_id \<longrightarrow>
      (\<exists>rows. snd (get_user_deal_by_product_id db user_id product_id) = Returns rows)) \<and>
   (\<forall>rows x.
      snd (get_user_deal_by_product_id db user_id product_id) = Returns rows \<and> x \<in> set rows \<longrightarrow>
      d_paid x = False \<and>
      (let db1 = fst (get_user_deal_by_product_id db user_id product_id);
           db2 = fst (set_paid_deal db1 (sint (d_deal_id x)))
       in snd (set_paid_deal db1 (sint (d_deal_id x))) = Returns () \<and>
          (\<exists>rows'. snd (get_user_deal_by_product_id db2 user_id product_id) = Returns rows' \<and>
             x \<notin> set rows' \<and> (\<forall>y \<in> set rows'. d_deal_id y \<noteq> d_deal_id x))))"
proof (cases "available db \<and> in_int8 user_id \<and> in_int4 product_id")
  case True
  then have av0: "available db" and u: "in_int8 user_id" and p: "in_int4 product_id"
    by simp_all
  define cond :: "deals_row \<Rightarrow> bool" where
    "cond = (\<lambda>r. sint (d_user_id r) = user_id \<and> sint (d_product_id r) = product_id \<and>
                  d_paid r = False)"
  have get1: "get_user_deal_by_product_id db user_id product_id =
      (established db, Returns (sql_select cond (deals (server db))))"
    unfolding cond_def by (rule get_user_deal_by_product_id_available [OF av0 u p])
  have av: "available (established db)"
    by (rule available_established [OF av0])
  have after: "d_paid x = False \<and>
      (let db1 = established db; db2 = fst (set_paid_deal db1 (sint (d_deal_id x)))
       in snd (set_paid_deal db1 (sint (d_deal_id x))) = Returns () \<and>
          (\<exists>rows'. snd (get_user_deal_by_product_id db2 user_id product_id) = Returns rows' \<and>
             x \<notin> set rows' \<and> (\<forall>y \<in> set rows'. d_deal_id y \<noteq> d_deal_id x)))"
    if x: "x \<in> set (sql_select cond (deals (server db)))" for x
  proof -
    define t where "t = sql_update (\<lambda>r. r\<lparr>d_paid := True\<rparr>) (\<lambda>r. d_deal_id r = d_deal_id x)
                          (deals (server db))"
    define db2 where "db2 = (established db)\<lparr>server := (server db)\<lparr>deals := t\<rparr>\<rparr>"
    have unpaid: "d_paid x = False"
      using x by (simp add: cond_def)
    have set2: "set_paid_deal (established db) (sint (d_deal_id x)) = (db2, Returns ())"
      using set_paid_deal_available [OF av, of "sint (d_deal_id x)"]
      by (simp add: db2_def t_def established_idem [OF av0])
    have "available db2"
      using av by (simp add: db2_def)
    from get_user_deal_by_product_id_available [OF this u p]
    have get2: "snd (get_user_deal_by_product_id db2 user_id product_id) =
        Returns (sql_select cond t)"
      by (simp add: cond_def db2_def)
    have other: "d_deal_id y \<noteq> d_deal_id x" if "y \<in> set (sql_select cond t)" for y
    proof -
      from that have "y \<in> set t" and "d_paid y = False"
        by (simp_all add: cond_def)
      from sql_update_cases [OF this(1) [unfolded t_def]] this(2) show ?thesis
        by auto
    qed
    then have "x \<notin> set (sql_select cond t)"
      by blast
    with unpaid set2 get2 other show ?thesis
      by (simp add: Let_def)
  qed
  show ?thesis
    using after by (simp add: get1)
next
  case False
  have "snd (get_user_deal_by_product_id db user_id product_id) = Raises DataError"
      if "available db"
    using get_user_deal_by_product_id_refused [OF that, of user_id product_id] False that
    by auto
  moreover have "\<exists>r. get_user_deal_by_product_id db user_id product_id = (db, r) \<and>
      (\<forall>x. r \<noteq> Returns x)" if "\<not> available db"
    using get_user_deal_by_product_id_unavailable [OF that] .
  ultimately have "\<forall>rows. snd (get_user_deal_by_product_id db user_id product_id) \<noteq> Returns rows"
    by (cases "available db") auto
  then show ?thesis
    using False by simp
qed

theorem unpaid_deal_leaves_result_witness:
  "snd (get_user_deal_by_product_id scenario_db 42 7) = Returns [deal_900] \<and>
   deal_900 \<in> set [deal_900] \<and>
   d_paid deal_900 = False \<and>
   (let db1 = fst (get_user_deal_by_product_id scenario_db 42 7);
        db2 = fst (set_paid_deal db1 (sint (d_deal_id deal_900)))
    in snd (set_paid_deal db1 (sint (d_deal_id deal_900))) = Returns () \<and>
       (\<exists>rows'. snd (get_user_deal_by_product_id db2 42 7) = Returns rows' \<and>
          deal_900 \<notin> set rows' \<and> (\<forall>y \<in> set rows'. d_deal_id y \<noteq> d_deal_id deal_900)))"
proof -
  have h: "snd (get_user_deal_by_product_id scenario_db 42 7) = Returns [deal_900] \<and>
      deal_900 \<in> set [deal_900]"
    by code_simp
  from unpaid_deal_leaves_result [of scenario_db 42 7, THEN conjunct2, rule_format, OF h] h
  show ?thesis
    by blast
qed

text \<open>
  C8.  \<open>set_paid_deal\<close> changes nothing but \<open>paid\<close>: the table keeps its length, every row
  keeps \<open>id\<close>, \<open>user_id\<close>, \<open>deal_id\<close>, \<open>product_id\<close>, \<open>opportunity\<close> and
  \<open>create_time\<close>, and a row with another \<open>deal_id\<close> stays as it is.
\<close>

theorem set_paid_deal_frame:
  "length (deals (server (fst (set_paid_deal db deal_id)))) = length (deals (server db)) \<and>
   (\<forall>i < length (deals (server db)).
      d_id (deals (server (fst (set_paid_deal db deal_id))) ! i) = d_id (deals (server db) ! i) \<and>
      d_user_id (deals (server (fst (set_paid_deal db deal_id))) ! i) =
        d_user_id (deals (server db) ! i) \<and>
      d_deal_id (deals (server (fst (set_paid_deal db deal_id))) ! i) =
        d_deal_id (deals (server db) ! i) \<and>
      d_product_id (deals (server (fst (set_paid_deal db deal_id))) ! i) =
        d_product_id (deals (server db) ! i) \<and>
      d_opportunity (deals (server (fst (set_paid_deal db deal_id))) ! i) =
        d_opportunity (deals (server db) ! i) \<and>
      d_create_time (deals (server (fst (set_paid_deal db deal_id))) ! i) =
        d_create_time (deals (server db) ! i) \<and>
      (sint (d_deal_id (deals (server db) ! i)) \<noteq> deal_id \<longrightarrow>
         deals (server (fst (set_paid_deal db deal_id))) ! i = deals (server db) ! i))"
proof (cases "available db")
  case True
  show ?thesis
  proof (cases "in_int4 deal_id")
    case in_range: True
    show ?thesis
      by (auto simp: set_paid_deal_available [OF True in_range] nth_sql_update
            sint_int4 [OF in_range])
  next
    case False
    show ?thesis
      by (simp add: set_paid_deal_refused [OF True False])
  qed
next
  case False
  obtain r where "set_paid_deal db deal_id = (db, r)"
    using set_paid_deal_unavailable [OF False] by blast
  then show ?thesis by simp
qed

theorem set_paid_deal_frame_witness:
  "(1::nat) < length (deals (server scenario_db)) \<and>
   sint (d_deal_id (deals (server scenario_db) ! 1)) \<noteq> 900 \<and>
   d_user_id (deals (server (fst (set_paid_deal scenario_db 900))) ! 1) =
     d_user_id (deals (server scenario_db) ! 1) \<and>
   deals (server (fst (set_paid_deal scenario_db 900))) ! 1 = deals (server scenario_db) ! 1"
proof -
  have h: "(1::nat) < length (deals (server scenario_db)) \<and>
      sint (d_deal_id (deals (server scenario_db) ! 1)) \<noteq> 900"
    by code_simp
  from set_paid_deal_frame [of scenario_db 900, THEN conjunct2, rule_format, of 1] h
  show ?thesis
    by blast
qed

subsection \<open>Users\<close>

lemma is_user_exist_available:
  "available db \<Longrightarrow> in_int8 user_id \<Longrightarrow>
   is_user_exist db user_id =
     (established db,
      Returns (sql_select (\<lambda>r. sint (u_user_id r) = user_id) (users (server db)) \<noteq> []))"
  unfolding is_user_exist_def by (simp add: select_available int8_encode_in int8_eq)

lemma is_user_exist_refused:
  "available db \<Longrightarrow> \<not> in_int8 user_id \<Longrightarrow>
   is_user_exist db user_id = (established db, Raises DataError)"
  unfolding is_user_exist_def by (simp add: select_available int8_encode_out)

lemma is_b24_contact_exist_available:
  "available db \<Longrightarrow> in_int8 user_id \<Longrightarrow>
   is_b24_contact_exist db user_id =
     (case index (map u_b24_id (sql_select (\<lambda>r. sint (u_user_id r) = user_id)
                                   (users (server db)))) 0 of
        Returns b24_id \<Rightarrow>
          (established db, Returns (case b24_id of None \<Rightarrow> False | Some n \<Rightarrow> sint n \<noteq> 0))
      | Raises e \<Rightarrow> (established db, Raises e)
      | Hangs \<Rightarrow> (established db, Hangs))"
  unfolding is_b24_contact_exist_def by (simp add: select_available int8_encode_in int8_eq)

lemma is_b24_contact_exist_refused:
  "available db \<Longrightarrow> \<not> in_int8 user_id \<Longrightarrow>
   is_b24_contact_exist db user_id = (established db, Raises DataError)"
  unfolding is_b24_contact_exist_def by (simp add: select_available int8_encode_out)

lemma issued_next_free:
  "ids_issued key t w \<Longrightarrow> sint w < 2147483647 \<Longrightarrow> \<not> (\<exists>r \<in> set t. key r = w + 1)"
  by (auto simp: ids_issued_def sint_succ)

lemma add_new_user_available:
  assumes "available db" and "in_int8 user_id"
    and "option_encode text_encode username = Returns username"
    and "text_encode full_name = Returns full_name"
    and "sint (users_id_seq (server db)) < 2147483647"
  shows "add_new_user db user_id username full_name =
     (if (\<exists>r \<in> set (users (server db)). u_id r = users_id_seq (server db) + 1) \<or>
         (\<exists>r \<in> set (users (server db)). sint (u_user_id r) = user_id)
      then ((established db)\<lparr>server := (server db)\<lparr>users_id_seq := users_id_seq (server db) + 1\<rparr>\<rparr>,
            Raises UniqueViolationError)
      else ((established db)\<lparr>server := (server db)\<lparr>
              users_id_seq := users_id_seq (server db) + 1,
              users := users (server db) @
                [\<lparr>u_id = users_id_seq (server db) + 1, u_user_id = word_of_int user_id,
                  u_username = username, u_full_name = full_name, u_b24_id = None,
                  u_im_link_b24 = None, u_lead_id = None\<rparr>]\<rparr>\<rparr>,
            Returns ()))"
  unfolding add_new_user_def
  by (simp add: update_available [OF assms(1)] int8_encode_in [OF assms(2)] assms(3,4)
        nextval_in [OF assms(5)] Let_def conflicts_def sql_insert_def int8_eq [OF assms(2)])

lemma add_new_user_unavailable:
  "\<not> available db \<Longrightarrow>
   \<exists>r. add_new_user db user_id username full_name = (db, r) \<and> r \<noteq> Returns ()"
  unfolding add_new_user_def by (rule update_unavailable)

lemma add_new_user_returns:
  assumes "add_new_user db user_id username full_name = (db1, Returns ())"
  shows "available db \<and> in_int8 user_id \<and>
     (\<exists>r. u_user_id r = word_of_int user_id \<and>
        db1 = (established db)\<lparr>server := (server db)\<lparr>
                users_id_seq := users_id_seq (server db) + 1,
                users := users (server db) @ [r]\<rparr>\<rparr>)"
proof -
  have av: "available db"
    using add_new_user_unavailable [of db user_id username full_name] assms by auto
  have ret: "snd (add_new_user db user_id username full_name) = Returns ()"
    by (simp add: assms)
  have u: "in_int8 user_id"
    using ret unfolding add_new_user_def
    by (auto simp: update_available [OF av] int8_encode_def split: if_splits)
  obtain a2 where a2: "option_encode text_encode username = Returns a2"
    using ret unfolding add_new_user_def
    by (cases "option_encode text_encode username")
       (auto simp: update_available [OF av] int8_encode_in [OF u])
  obtain a3 where a3: "text_encode full_name = Returns a3"
    using ret unfolding add_new_user_def
    by (cases "text_encode full_name")
       (auto simp: update_available [OF av] int8_encode_in [OF u] a2)
  have seq: "sint (users_id_seq (server db)) < 2147483647"
    using ret unfolding add_new_user_def
    by (auto simp: update_available [OF av] int8_encode_in [OF u] a2 a3 nextval_def
          split: if_splits)
  define r where "r = \<lparr>u_id = users_id_seq (server db) + 1, u_user_id = word_of_int user_id,
      u_username = a2, u_full_name = a3, u_b24_id = None, u_im_link_b24 = None,
      u_lead_id = None\<rparr>"
  have "db1 = (established db)\<lparr>server := (server db)\<lparr>
      users_id_seq := users_id_seq (server db) + 1, users := users (server db) @ [r]\<rparr>\<rparr>"
    using assms unfolding add_new_user_def r_def
    by (auto simp: update_available [OF av] int8_encode_in [OF u] a2 a3 nextval_in [OF seq]
          Let_def sql_insert_def split: if_splits)
  moreover have "u_user_id r = word_of_int user_id"
    by (simp add: r_def)
  ultimately show ?thesis
    using av u by blast
qed

text \<open>
  C9.  Once \<open>add_new_user\<close> has returned, \<open>is_user_exist\<close> returns true for the
  \<open>user_id\<close>.  As long as the table has no row for the \<open>user_id\<close>, \<open>is_user_exist\<close>
  returns false, and \<open>add_new_user\<close> succeeds for a valid triple: a \<open>user_id\<close> in the
  range of \<open>BIGINT\<close>, a username and a full name without the character \<open>NUL\<close>, as long as
  the sequence of \<open>id\<close> has a value left.
\<close>

theorem user_exists_after_insert:
  "(add_new_user db user_id username full_name = (db1, Returns ()) \<longrightarrow>
      is_user_exist db1 user_id = (db1, Returns True)) \<and>
   (available db \<and> in_int8 user_id \<and>
    (\<forall>r \<in> set (users (server db)). sint (u_user_id r) \<noteq> user_id) \<longrightarrow>
      snd (is_user_exist db user_id) = Returns False) \<and>
   (available db \<and> in_int8 user_id \<and>
    (\<forall>r \<in> set (users (server db)). sint (u_user_id r) \<noteq> user_id) \<and>
    option_encode text_encode username = Returns username \<and>
    text_encode full_name = Returns full_name \<and>
    sint (users_id_seq (server db)) < 2147483647 \<and>
    ids_issued u_id (users (server db)) (users_id_seq (server db)) \<longrightarrow>
      snd (add_new_user db user_id username full_name) = Returns ())"
proof (intro conjI impI)
  assume ins: "add_new_user db user_id username full_name = (db1, Returns ())"
  from add_new_user_returns [OF ins] obtain r where av: "available db" and u: "in_int8 user_id"
      and r: "u_user_id r = word_of_int user_id"
      and db1: "db1 = (established db)\<lparr>server := (server db)\<lparr>
                users_id_seq := users_id_seq (server db) + 1,
                users := users (server db) @ [r]\<rparr>\<rparr>"
    by blast
  have av1: "available db1" and est1: "established db1 = db1"
    using available_established [OF av] established_idem [OF av] by (simp_all add: db1)
  have "sql_select (\<lambda>x. sint (u_user_id x) = user_id) (users (server db1)) \<noteq> []"
    by (simp add: db1 r sint_int8 [OF u])
  then show "is_user_exist db1 user_id = (db1, Returns True)"
    by (simp add: is_user_exist_available [OF av1 u] est1)
next
  assume a: "available db \<and> in_int8 user_id \<and>
      (\<forall>r \<in> set (users (server db)). sint (u_user_id r) \<noteq> user_id)"
  then have "sql_select (\<lambda>r. sint (u_user_id r) = user_id) (users (server db)) = []"
    by (intro sql_select_empty) blast
  then show "snd (is_user_exist db user_id) = Returns False"
    using a by (simp add: is_user_exist_available)
next
  assume a: "available db \<and> in_int8 user_id \<and>
      (\<forall>r \<in> set (users (server db)). sint (u_user_id r) \<noteq> user_id) \<and>
      option_encode text_encode username = Returns username \<and>
      text_encode full_name = Returns full_name \<and>
      sint (users_id_seq (server db)) < 2147483647 \<and>
      ids_issued u_id (users (server db)) (users_id_seq (server db))"
  then have no_user: "\<not> (\<exists>r \<in> set (users (server db)). sint (u_user_id r) = user_id)"
    by blast
  have no_id: "\<not> (\<exists>r \<in> set (users (server db)). u_id r = users_id_seq (server db) + 1)"
    using a by (intro issued_next_free) simp_all
  show "snd (add_new_user db user_id username full_name) = Returns ()"
    using a no_user no_id by (simp add: add_new_user_available)
qed

theorem user_exists_after_insert_witness:
  "available scenario_db \<and> in_int8 44 \<and>
   option_encode text_encode None = Returns None \<and>
   text_encode ''Carol C'' = Returns ''Carol C'' \<and>
   sint (users_id_seq (server scenario_db)) < 2147483647 \<and>
   ids_issued u_id (users (server scenario_db)) (users_id_seq (server scenario_db)) \<and>
   snd (is_user_exist scenario_db 44) = Returns False \<and>
   snd (add_new_user scenario_db 44 None ''Carol C'') = Returns () \<and>
   is_user_exist (fst (add_new_user scenario_db 44 None ''Carol C'')) 44 =
     (fst (add_new_user scenario_db 44 None ''Carol C''), Returns True)"
proof -
  have h: "available scenario_db \<and> in_int8 44 \<and>
      (\<forall>r \<in> set (users (server scenario_db)). sint (u_user_id r) \<noteq> 44) \<and>
      option_encode text_encode None = Returns None \<and>
      text_encode ''Carol C'' = Returns ''Carol C'' \<and>
      sint (users_id_seq (server scenario_db)) < 2147483647 \<and>
      ids_issued u_id (users (server scenario_db)) (users_id_seq (server scenario_db))"
    by code_simp
  then have h2: "available scenario_db \<and> in_int8 44 \<and>
      (\<forall>r \<in> set (users (server scenario_db)). sint (u_user_id r) \<noteq> 44)"
    by blast
  note absent = user_exists_after_insert [of scenario_db 44 None "''Carol C''",
      THEN conjunct2, THEN conjunct1, rule_format, OF h2]
  note inserted = user_exists_after_insert [of scenario_db 44 None "''Carol C''",
      THEN conjunct2, THEN conjunct2, rule_format, OF h]
  from inserted have "add_new_user scenario_db 44 None ''Carol C'' =
      (fst (add_new_user scenario_db 44 None ''Carol C''), Returns ())"
    by (simp add: prod_eq_iff)
  note after = user_exists_after_insert [of scenario_db 44 None "''Carol C''",
      THEN conjunct1, rule_format, OF this]
  from h absent inserted after show ?thesis
    by blast
qed

text \<open>
  C10.  \<open>is_b24_contact_exist\<close> needs a row of the user: without one it raises
  \<open>IndexError\<close>, where \<open>is_user_exist\<close> returns false; with one it returns a truth value.
  (A \<open>user_id\<close> out of the range of \<open>BIGINT\<close> is refused by the driver in both methods.)
\<close>

theorem b24_contact_needs_user_row:
  "(available db \<and> in_int8 user_id \<longrightarrow>
     ((\<forall>r \<in> set (users (server db)). sint (u_user_id r) \<noteq> user_id) \<longrightarrow>
        snd (is_b24_contact_exist db user_id) = Raises IndexError \<and>
        snd (is_user_exist db user_id) = Returns False) \<and>
     ((\<exists>r \<in> set (users (server db)). sint (u_user_id r) = user_id) \<longrightarrow>
        (\<exists>b. snd (is_b24_contact_exist db user_id) = Returns b) \<and>
        snd (is_user_exist db user_id) = Returns True)) \<and>
   (available db \<and> \<not> in_int8 user_id \<longrightarrow>
      snd (is_b24_contact_exist db user_id) = Raises DataError \<and>
      snd (is_user_exist db user_id) = Raises DataError)"
proof (intro impI conjI)
  assume a: "available db \<and> in_int8 user_id"
    and none: "\<forall>r \<in> set (users (server db)). sint (u_user_id r) \<noteq> user_id"
  then have av: "available db" and u: "in_int8 user_id"
    by simp_all
  have empty: "sql_select (\<lambda>r. sint (u_user_id r) = user_id) (users (server db)) = []"
    using none by (intro sql_select_empty) blast
  show "snd (is_b24_contact_exist db user_id) = Raises IndexError"
    by (simp add: is_b24_contact_exist_available [OF av u] empty index_def)
  show "snd (is_user_exist db user_id) = Returns False"
    by (simp add: is_user_exist_available [OF av u] empty)
next
  assume a: "available db \<and> in_int8 user_id"
    and some: "\<exists>r \<in> set (users (server db)). sint (u_user_id r) = user_id"
  then have av: "available db" and u: "in_int8 user_id"
    by simp_all
  have ne: "sql_select (\<lambda>r. sint (u_user_id r) = user_id) (users (server db)) \<noteq> []"
    using some by (simp add: sql_select_nonempty)
  then show "\<exists>b. snd (is_b24_contact_exist db user_id) = Returns b"
    by (simp add: is_b24_contact_exist_available [OF av u] index_def)
  show "snd (is_user_exist db user_id) = Returns True"
    using ne by (simp add: is_user_exist_available [OF av u])
next
  assume a: "available db \<and> \<not> in_int8 user_id"
  then show "snd (is_b24_contact_exist db user_id) = Raises DataError"
    by (simp add: is_b24_contact_exist_refused)
  from a show "snd (is_user_exist db user_id) = Raises DataError"
    by (simp add: is_user_exist_refused)
qed

theorem b24_contact_needs_user_row_witness:
  "available scenario_db \<and> in_int8 44 \<and> in_int8 42 \<and>
   snd (is_b24_contact_exist scenario_db 44) = Raises IndexError \<and>
   snd (is_user_exist scenario_db 44) = Returns False \<and>
   (\<exists>b. snd (is_b24_contact_exist scenario_db 42) = Returns b) \<and>
   snd (is_user_exist scenario_db 42) = Returns True \<and>
   \<not> in_int8 9223372036854775808 \<and>
   snd (is_user_exist scenario_db 9223372036854775808) = Raises DataError"
proof -
  have a: "available scenario_db \<and> in_int8 44" "available scenario_db \<and> in_int8 42"
      "available scenario_db \<and> \<not> in_int8 9223372036854775808"
    by code_simp+
  have none: "\<forall>r \<in> set (users (server scenario_db)). sint (u_user_id r) \<noteq> 44"
    by code_simp
  have some: "\<exists>r \<in> set (users (server scenario_db)). sint (u_user_id r) = 42"
    by code_simp
  from b24_contact_needs_user_row [of scenario_db 44] b24_contact_needs_user_row [of scenario_db 42]
    b24_contact_needs_user_row [of scenario_db 9223372036854775808] a none some
  show ?thesis
    by blast
qed

subsection \<open>The pool\<close>

text \<open>
  C5.  \<open>select\<close> and \<open>update\<close> connect on first use.  On an object without a pool they
  open the pool that \<open>create_pool\<close> gives for the bounds of the object, once, and run the
  statement.  On an object whose pool is open and has a connection free they run the
  statement and leave the object as it is: the same pool, and no pool opened.
\<close>

theorem connect_on_first_use:
  "(pool db = None \<and> available db \<longrightarrow>
      create_pool (min_size db) (max_size db) (max_queries db) (timeout db) =
        Returns (the (pool (fst (select db q)))) \<and>
      pool (fst (update db w)) = pool (fst (select db q)) \<and>
      pools_opened (fst (select db q)) = Suc (pools_opened db) \<and>
      pools_opened (fst (update db w)) = Suc (pools_opened db) \<and>
      snd (select db q) = q (server db) \<and>
      server (fst (select db q)) = server db \<and>
      snd (update db w) = snd (w (server db)) \<and>
      server (fst (update db w)) = fst (w (server db))) \<and>
   (pool db \<noteq> None \<and> available db \<longrightarrow>
      select db q = (db, q (server db)) \<and>
      update db w = (db\<lparr>server := fst (w (server db))\<rparr>, snd (w (server db))) \<and>
      pool (fst (update db w)) = pool db \<and>
      pools_opened (fst (update db w)) = pools_opened db)"
proof (intro conjI impI)
  assume a: "pool db = None \<and> available db"
  then have av: "available db" and none: "pool db = None"
    by simp_all
  have est: "established db = fst (connect db)"
    by (simp add: established_def none)
  note c = connect_available [OF none av]
  show "create_pool (min_size db) (max_size db) (max_queries db) (timeout db) =
      Returns (the (pool (fst (select db q))))"
    using av none by (simp add: select_available [OF av] est c create_pool_def available_def)
  show "pool (fst (update db w)) = pool (fst (select db q))"
    by (simp add: select_available [OF av] update_available [OF av])
  show "pools_opened (fst (select db q)) = Suc (pools_opened db)"
    by (simp add: select_available [OF av] est c)
  show "pools_opened (fst (update db w)) = Suc (pools_opened db)"
    by (simp add: update_available [OF av] est c)
  show "snd (select db q) = q (server db)"
    by (simp add: select_available [OF av])
  show "server (fst (select db q)) = server db"
    by (simp add: select_available [OF av])
  show "snd (update db w) = snd (w (server db))"
    by (simp add: update_available [OF av])
  show "server (fst (update db w)) = fst (w (server db))"
    by (simp add: update_available [OF av])
next
  assume a: "pool db \<noteq> None \<and> available db"
  then have av: "available db" and est: "established db = db"
    by (auto simp: established_def)
  show "select db q = (db, q (server db))"
    by (simp add: select_available [OF av] est)
  show "update db w = (db\<lparr>server := fst (w (server db))\<rparr>, snd (w (server db)))"
    by (simp add: update_available [OF av] est)
  show "pool (fst (update db w)) = pool db"
    by (simp add: update_available [OF av] est)
  show "pools_opened (fst (update db w)) = pools_opened db"
    by (simp add: update_available [OF av] est)
qed

theorem connect_on_first_use_witness:
  "pool fresh_db = None \<and> available fresh_db \<and>
   pools_opened (fst (select fresh_db (\<lambda>s. Returns (users s)))) = Suc (pools_opened fresh_db) \<and>
   snd (select fresh_db (\<lambda>s. Returns (users s))) = Returns (users (server fresh_db)) \<and>
   pool scenario_db \<noteq> None \<and> available scenario_db \<and>
   select scenario_db (\<lambda>s. Returns (users s)) =
     (scenario_db, Returns (users (server scenario_db))) \<and>
   pools_opened (fst (update scenario_db (\<lambda>s. (s, Returns ())))) = pools_opened scenario_db"
proof -
  have f: "pool fresh_db = None \<and> available fresh_db"
    by code_simp
  have s: "pool scenario_db \<noteq> None \<and> available scenario_db"
    by code_simp
  note first = connect_on_first_use [of fresh_db "\<lambda>s. Returns (users s)" "\<lambda>s. (s, Returns ())",
      THEN conjunct1, rule_format, OF f]
  note later = connect_on_first_use [of scenario_db "\<lambda>s. Returns (users s)" "\<lambda>s. (s, Returns ())",
      THEN conjunct2, rule_format, OF s]
  from f s first later show ?thesis
    by blast
qed

lemma select_exhausted:
  "pool db = Some p \<Longrightarrow> \<not> p_closed p \<Longrightarrow> p_free p \<le> 0 \<Longrightarrow> select db q = (db, Hangs)"
  by (simp add: select_def acquire_def)

lemma update_exhausted:
  "pool db = Some p \<Longrightarrow> \<not> p_closed p \<Longrightarrow> p_free p \<le> 0 \<Longrightarrow> update db w = (db, Hangs)"
  by (simp add: update_def acquire_def)

text \<open>
  C7, as the code has it.  \<open>select\<close> and \<open>update\<close> acquire their connection without a time
  limit: on a pool whose connections are all taken, and stay so, the call never returns
  and raises no timeout error, whatever \<open>timeout\<close> the object was built with.  The
  \<open>timeout\<close> of the object reaches \<open>create_pool\<close> as
  \<open>max_inactive_connection_lifetime\<close> and nothing else; \<open>TimeoutError\<close> is what \<open>acquire\<close>
  would raise had it been given a time limit.
\<close>

theorem acquire_without_time_limit:
  "(pool db = Some p \<and> \<not> p_closed p \<and> p_free p \<le> 0 \<longrightarrow>
      select db q = (db, Hangs) \<and> update db w = (db, Hangs) \<and>
      acquire p None = Hangs \<and> acquire p (Some (timeout db)) = Raises TimeoutError) \<and>
   (pool db = None \<and> available db \<longrightarrow>
      (\<exists>p'. pool (fst (connect db)) = Some p' \<and>
         p_max_inactive_connection_lifetime p' = timeout db \<and> p_free p' = max_size db))"
proof (intro conjI impI)
  assume a: "pool db = Some p \<and> \<not> p_closed p \<and> p_free p \<le> 0"
  then show "select db q = (db, Hangs)"
    by (simp add: select_exhausted)
  from a show "update db w = (db, Hangs)"
    by (simp add: update_exhausted)
  from a show "acquire p None = Hangs"
    by (simp add: acquire_def)
  from a show "acquire p (Some (timeout db)) = Raises TimeoutError"
    by (simp add: acquire_def)
next
  assume "pool db = None \<and> available db"
  then show "\<exists>p'. pool (fst (connect db)) = Some p' \<and>
      p_max_inactive_connection_lifetime p' = timeout db \<and> p_free p' = max_size db"
    by (simp add: connect_available)
qed

theorem acquire_without_time_limit_witness:
  "pool exhausted_db = Some exhausted_pool \<and> \<not> p_closed exhausted_pool \<and>
   p_free exhausted_pool \<le> 0 \<and>
   select exhausted_db (\<lambda>s. Returns (deals s)) = (exhausted_db, Hangs) \<and>
   acquire exhausted_pool (Some (timeout exhausted_db)) = Raises TimeoutError \<and>
   pool fresh_db = None \<and> available fresh_db \<and>
   (\<exists>p'. pool (fst (connect fresh_db)) = Some p' \<and>
      p_max_inactive_connection_lifetime p' = timeout fresh_db \<and>
      p_free p' = max_size fresh_db)"
proof -
  have e: "pool exhausted_db = Some exhausted_pool \<and> \<not> p_closed exhausted_pool \<and>
      p_free exhausted_pool \<le> 0"
    by code_simp
  have f: "pool fresh_db = None \<and> available fresh_db"
    by code_simp
  note hangs = acquire_without_time_limit
      [of exhausted_db exhausted_pool "\<lambda>s. Returns (deals s)" "\<lambda>s. (s, Returns ())",
       THEN conjunct1, rule_format, OF e]
  note lifetime = acquire_without_time_limit
      [of fresh_db exhausted_pool "\<lambda>s. Returns (deals s)" "\<lambda>s. (s, Returns ())",
       THEN conjunct2, rule_format, OF f]
  from e f hangs lifetime show ?thesis
    by blast
qed

text \<open>
  C7, as the specification has it, fails: with all 500 connections taken and a \<open>timeout\<close>
  of 30, \<open>get_products\<close> and \<open>set_paid_deal\<close> do not raise \<open>TimeoutError\<close>, they wait for
  ever.
\<close>

theorem exhausted_pool_counterexample:
  "timeout exhausted_db = 30 \<and>
   snd (get_products exhausted_db) = Hangs \<and>
   snd (get_products exhausted_db) \<noteq> Raises TimeoutError \<and>
   set_paid_deal exhausted_db 900 = (exhausted_db, Hangs)"
  by code_simp

subsection \<open>Button statistics\<close>











subsection \<open>Payments\<close>

declare bit_length.simps [simp del]
declare odd_part.simps [simp del]


























lemma py_int_outcome: "py_int s = Raises ValueError \<or> (\<exists>n. py_int s = Returns n)"
  by (simp add: py_int_def split: option.splits list.splits)

lemma payload_part_eq:
  "payload_part pd i =
     (if i < length (split (invoice_payload pd) CHR '':'')
      then py_int (split (invoice_payload pd) CHR '':'' ! i) else Raises IndexError)"
  by (simp add: payload_part_def index_def)

lemma payload_part_outcome:
  "payload_part pd i = Raises ValueError \<or> payload_part pd i = Raises IndexError \<or>
   (\<exists>n. payload_part pd i = Returns n)"
  using py_int_outcome [of "split (invoice_payload pd) CHR '':'' ! i"]
  by (auto simp: payload_part_eq)









end
